theory Spec2Isabelle
  imports Main
begin

section \<open>The report wizard of \<open>src/pages/AIReports.tsx\<close>\<close>

text \<open>
  The component \<open>AIReports\<close> keeps five pieces of React state and changes them through
  six handlers. Each handler is modelled as a function from the state before the call to
  the state after it. The two external collaborators (the report service and the PDF
  renderer) are parameters of the handlers that call them.
\<close>

subsection \<open>JavaScript values and strings\<close>

text \<open>
  At run time \<open>formData\<close> is a plain object. \<open>handleOptionSelect\<close> writes it through a
  computed key, so a field can hold a string where the interface \<open>FormData\<close> declares an
  array, and keys outside the interface can appear. The object is therefore a map from
  property names to values, and a value is a string or an array of strings.
  Strings are lists of 8-bit characters, one character for each code point: the model
  covers the strings over the code points below 256.
\<close>

datatype jsval = JStr string | JArr "string list"

datatype js_error = TypeError

type_synonym FormData = "string \<Rightarrow> jsval option"

text \<open>
  \<open>String.prototype.trim\<close> removes white space and line terminators from both ends.
  Among the code points a \<open>char\<close> can hold these are TAB, LF, VT, FF, CR, SP and NBSP.
\<close>

definition isWhiteSpace :: "char \<Rightarrow> bool" where
  "isWhiteSpace c =
     (c = CHR 0x09 \<or> c = CHR 0x0A \<or> c = CHR 0x0B \<or> c = CHR 0x0C \<or> c = CHR 0x0D
      \<or> c = CHR 0x20 \<or> c = CHR 0xA0)"

definition trim :: "string \<Rightarrow> string" where
  "trim str = rev (dropWhile isWhiteSpace (rev (dropWhile isWhiteSpace str)))"

text \<open>\<open>String.prototype.includes\<close>: the argument occurs as a substring.\<close>

fun startsWith :: "string \<Rightarrow> string \<Rightarrow> bool" where
  "startsWith str [] = True"
| "startsWith [] (c # cs) = False"
| "startsWith (d # ds) (c # cs) = (d = c \<and> startsWith ds cs)"

fun str_includes :: "string \<Rightarrow> string \<Rightarrow> bool" where
  "str_includes [] sub = startsWith [] sub"
| "str_includes (d # ds) sub = (startsWith (d # ds) sub \<or> str_includes ds sub)"

subsection \<open>Static catalogs\<close>

record Question =
  qid :: string
  qtext :: string
  qoptions :: "string list"

definition questions :: "Question list" where
  "questions =
    [\<lparr>qid = ''reportType'', qtext = ''What type of report do you need?'',
      qoptions = [''Groundwater Level Analysis'', ''Water Quality Assessment'',
                  ''Aquifer Characterization'', ''Sustainability Analysis'']\<rparr>,
     \<lparr>qid = ''period'', qtext = ''Select the time period for analysis'',
      qoptions = [''Last 6 months'', ''Last 1 year'', ''Last 5 years'', ''Last 10 years'']\<rparr>]"

subsection \<open>Component state\<close>

text \<open>
  \<open>currentStep\<close> is a JavaScript number that the handlers only increment and decrement,
  so it is an integer that may become negative. The processed report is opaque to the
  component: its type is the parameter \<open>'r\<close>.
\<close>

record 'r wizard =
  currentStep :: int
  isGenerating :: bool
  error :: "string option"
  reportData :: "'r option"
  formData :: FormData

definition initial :: "'r wizard" where
  "initial =
    \<lparr>currentStep = 0, isGenerating = False, error = None, reportData = None,
     formData = [''reportType'' \<mapsto> JStr [], ''location'' \<mapsto> JStr [],
                 ''period'' \<mapsto> JStr [], ''parameters'' \<mapsto> JArr []]\<rparr>"

subsection \<open>Field handlers\<close>

definition handleOptionSelect :: "string \<Rightarrow> string \<Rightarrow> 'r wizard \<Rightarrow> 'r wizard" where
  "handleOptionSelect questionId v s =
     s\<lparr>formData := (formData s)(questionId \<mapsto> JStr v), error := None\<rparr>"

definition handleLocationChange :: "string \<Rightarrow> 'r wizard \<Rightarrow> 'r wizard" where
  "handleLocationChange v s =
     s\<lparr>formData := (formData s)(''location'' \<mapsto> JStr v), error := None\<rparr>"

text \<open>
  The new value of \<open>parameters\<close> computed by the updater of \<open>handleParameterToggle\<close> from
  the old one. On an array, \<open>includes\<close> is membership. On a string it is the substring
  test, a string has no \<open>filter\<close>, and spreading a string yields its characters. Reading
  \<open>includes\<close> from a missing field throws.
\<close>

fun toggled :: "string \<Rightarrow> jsval option \<Rightarrow> js_error + jsval" where
  "toggled parameter None = Inl TypeError"
| "toggled parameter (Some (JArr ps)) =
     Inr (JArr (if parameter \<in> set ps then filter (\<lambda>p. p \<noteq> parameter) ps
                else ps @ [parameter]))"
| "toggled parameter (Some (JStr str)) =
     (if str_includes str parameter then Inl TypeError
      else Inr (JArr (map (\<lambda>c. [c]) str @ [parameter])))"

definition handleParameterToggle :: "string \<Rightarrow> 'r wizard \<Rightarrow> js_error + 'r wizard" where
  "handleParameterToggle parameter s =
     (case toggled parameter (formData s ''parameters'') of
        Inl e \<Rightarrow> Inl e
      | Inr v \<Rightarrow> Inr (s\<lparr>formData := (formData s)(''parameters'' \<mapsto> v), error := None\<rparr>))"

subsection \<open>Generating the report\<close>

text \<open>
  What the report service and the renderer can do to the component: the awaited call
  resolves with a value, or something is thrown. What is thrown is an instance of
  \<open>Error\<close>, whose \<open>message\<close> is a string (the empty one when the \<open>Error\<close> was made
  without a message), or any other value, with the string it carries as its \<open>message\<close>
  property if it carries one: a rejection with the plain object
  \<open>{message: 'rate limited'}\<close> is \<open>OtherThrown (Some ''rate limited'')\<close>, a thrown number
  is \<open>OtherThrown None\<close>.
\<close>

datatype thrown = ErrorInstance string | OtherThrown "string option"

datatype 'a outcome = Resolved 'a | Rejected thrown

text \<open>A call of the report service: the form and the API key it was given.\<close>

type_synonym request = "FormData \<times> string"

text \<open>The guard \<open>!formData.location.trim()\<close>; \<open>trim\<close> exists on strings only.\<close>

fun blankLocation :: "jsval option \<Rightarrow> js_error + bool" where
  "blankLocation None = Inl TypeError"
| "blankLocation (Some (JArr xs)) = Inl TypeError"
| "blankLocation (Some (JStr str)) = Inr (trim str = [])"

text \<open>\<open>apiKey || ''\<close>, where the environment variable may be undefined.\<close>

definition apiKeyOrEmpty :: "string option \<Rightarrow> string" where
  "apiKeyOrEmpty env = (case env of None \<Rightarrow> [] | Some k \<Rightarrow> k)"

text \<open>
  \<open>handleGenerateReport\<close> up to its \<open>await\<close>: the state it leaves and the request it has
  sent, if any.
\<close>

definition generateBegin ::
  "string option \<Rightarrow> 'r wizard \<Rightarrow> js_error + ('r wizard \<times> request option)" where
  "generateBegin env s =
     (case blankLocation (formData s ''location'') of
        Inl e \<Rightarrow> Inl e
      | Inr True \<Rightarrow> Inr (s\<lparr>error := Some ''Please enter a location''\<rparr>, None)
      | Inr False \<Rightarrow>
          Inr (s\<lparr>isGenerating := True, error := None\<rparr>,
               Some (formData s, apiKeyOrEmpty env)))"

text \<open>
  The rest of \<open>handleGenerateReport\<close>, once the call has settled: \<open>try\<close>, \<open>catch\<close>,
  \<open>finally\<close>. The \<open>catch\<close> block reads \<open>message\<close> only from an instance of \<open>Error\<close>.
\<close>

fun generateSettle :: "'r outcome \<Rightarrow> 'r wizard \<Rightarrow> 'r wizard" where
  "generateSettle (Resolved report) t = t\<lparr>reportData := Some report, isGenerating := False\<rparr>"
| "generateSettle (Rejected (ErrorInstance message)) t =
     t\<lparr>error := Some message, isGenerating := False\<rparr>"
| "generateSettle (Rejected (OtherThrown carried)) t =
     t\<lparr>error := Some ''Failed to generate report'', isGenerating := False\<rparr>"

text \<open>
  The whole handler when nothing else happens while the call is in flight. The result is
  the final state and the list of requests that reached the service.
\<close>

definition handleGenerateReport ::
  "string option \<Rightarrow> (request \<Rightarrow> 'r outcome) \<Rightarrow> 'r wizard
     \<Rightarrow> js_error + ('r wizard \<times> request list)" where
  "handleGenerateReport env service s =
     (case generateBegin env s of
        Inl e \<Rightarrow> Inl e
      | Inr (s1, None) \<Rightarrow> Inr (s1, [])
      | Inr (s1, Some req) \<Rightarrow> Inr (generateSettle (service req) s1, [req]))"


definition handleDownloadPDF :: "('r \<Rightarrow> unit outcome) \<Rightarrow> 'r wizard \<Rightarrow> 'r wizard" where
  "handleDownloadPDF renderer s =
     (case reportData s of
        None \<Rightarrow> s
      | Some report \<Rightarrow>
          (case renderer report of
             Resolved u \<Rightarrow> s
           | Rejected t \<Rightarrow> s\<lparr>error := Some ''Failed to download PDF''\<rparr>))"

subsection \<open>Rendering and navigation\<close>

datatype 'r view =
    ReportVisualization 'r
  | Details "jsval option" "jsval option"
  | ReportQuestion string "string list" "jsval option"

text \<open>
  \<open>renderCurrentStep\<close>. Outside the question list \<open>questions[currentStep]\<close> is undefined
  and reading its \<open>text\<close> throws.
\<close>

definition renderCurrentStep :: "'r wizard \<Rightarrow> js_error + 'r view" where
  "renderCurrentStep s =
     (case reportData s of
        Some report \<Rightarrow> Inr (ReportVisualization report)
      | None \<Rightarrow>
          if currentStep s = int (length questions)
          then Inr (Details (formData s ''location'') (formData s ''parameters''))
          else if 0 \<le> currentStep s \<and> currentStep s < int (length questions)
          then Inr (ReportQuestion (qtext (questions ! nat (currentStep s)))
                      (qoptions (questions ! nat (currentStep s)))
                      (formData s (qid (questions ! nat (currentStep s)))))
          else Inl TypeError)"

text \<open>The two step updaters, \<open>prev => prev - 1\<close> and \<open>prev => prev + 1\<close>.\<close>

definition previousStep :: "'r wizard \<Rightarrow> 'r wizard" where
  "previousStep s = s\<lparr>currentStep := currentStep s - 1\<rparr>"

definition nextStep :: "'r wizard \<Rightarrow> 'r wizard" where
  "nextStep s = s\<lparr>currentStep := currentStep s + 1\<rparr>"

text \<open>
  A button as the component renders it: its click handler and its \<open>disabled\<close> attribute.
  The browser delivers no click to a disabled button, and none to a button that is not
  rendered. The navigation row, with the Previous button in it, is rendered only while
  there is no report.
\<close>

record 'r button =
  onClick :: "'r wizard \<Rightarrow> 'r wizard"
  disabled :: bool

definition previousButton :: "'r wizard \<Rightarrow> 'r button option" where
  "previousButton s =
     (if reportData s \<noteq> None then None
      else Some \<lparr>onClick = previousStep, disabled = (currentStep s = 0)\<rparr>)"

definition click :: "'r button option \<Rightarrow> 'r wizard \<Rightarrow> 'r wizard" where
  "click b s =
     (case b of
        None \<Rightarrow> s
      | Some btn \<Rightarrow> if disabled btn then s else onClick btn s)"

subsection \<open>Sequences of handler calls\<close>

text \<open>
  One constructor for each way the state is written. The asynchronous handler contributes
  two, its part before the \<open>await\<close> and its part after, so that other calls may come in
  between. The outcome of an external call comes with the call.
\<close>

datatype 'r call =
    OptionSelect string string
  | LocationChange string
  | ParameterToggle string
  | Previous
  | Next
  | GenerateBegin "string option"
  | GenerateSettle "'r outcome"
  | DownloadPDF "unit outcome"

fun exec :: "'r call \<Rightarrow> 'r wizard \<Rightarrow> js_error + 'r wizard" where
  "exec (OptionSelect questionId v) s = Inr (handleOptionSelect questionId v s)"
| "exec (LocationChange v) s = Inr (handleLocationChange v s)"
| "exec (ParameterToggle parameter) s = handleParameterToggle parameter s"
| "exec Previous s = Inr (previousStep s)"
| "exec Next s = Inr (nextStep s)"
| "exec (GenerateBegin env) s =
     (case generateBegin env s of Inl e \<Rightarrow> Inl e | Inr (s1, req) \<Rightarrow> Inr s1)"
| "exec (GenerateSettle out) s = Inr (generateSettle out s)"
| "exec (DownloadPDF out) s = Inr (handleDownloadPDF (\<lambda>report. out) s)"

text \<open>A sequence of calls stops at the first one that throws.\<close>

fun run :: "'r call list \<Rightarrow> 'r wizard \<Rightarrow> js_error + 'r wizard" where
  "run [] s = Inr s"
| "run (c # cs) s = (case exec c s of Inl e \<Rightarrow> Inl e | Inr s1 \<Rightarrow> run cs s1)"

definition parametersAfter :: "'r call list \<Rightarrow> 'r wizard \<Rightarrow> js_error + jsval option" where
  "parametersAfter cs s =
     (case run cs s of Inl e \<Rightarrow> Inl e | Inr s1 \<Rightarrow> Inr (formData s1 ''parameters''))"

text \<open>The calls that edit a field or move the step.\<close>

fun fieldOrStep :: "'r call \<Rightarrow> bool" where
  "fieldOrStep (OptionSelect questionId v) = True"
| "fieldOrStep (LocationChange v) = True"
| "fieldOrStep (ParameterToggle parameter) = True"
| "fieldOrStep Previous = True"
| "fieldOrStep Next = True"
| "fieldOrStep (GenerateBegin env) = False"
| "fieldOrStep (GenerateSettle out) = False"
| "fieldOrStep (DownloadPDF out) = False"

text \<open>
  The calls the component itself can issue: it passes \<open>handleOptionSelect\<close> the \<open>id\<close> of an
  entry of \<open>questions\<close> and nothing else.
\<close>

fun fromQuestions :: "'r call \<Rightarrow> bool" where
  "fromQuestions (OptionSelect questionId v) = (questionId \<in> set (map qid questions))"
| "fromQuestions (LocationChange v) = True"
| "fromQuestions (ParameterToggle parameter) = True"
| "fromQuestions Previous = True"
| "fromQuestions Next = True"
| "fromQuestions (GenerateBegin env) = True"
| "fromQuestions (GenerateSettle out) = True"
| "fromQuestions (DownloadPDF out) = True"

section \<open>Properties of the handlers\<close>

subsection \<open>Auxiliary facts\<close>

lemma render_report:
  "reportData s = Some r \<Longrightarrow> renderCurrentStep s = Inr (ReportVisualization r)"
  by (simp add: renderCurrentStep_def)

lemma toggle_frame:
  assumes "handleParameterToggle p s = Inr s'"
  shows "reportData s' = reportData s \<and> currentStep s' = currentStep s
         \<and> isGenerating s' = isGenerating s \<and> error s' = None"
  using assms by (auto simp: handleParameterToggle_def split: sum.splits)

lemma toggle_array:
  assumes "formData s ''parameters'' = Some (JArr ps)"
  shows "handleParameterToggle p s =
           Inr (s\<lparr>formData := (formData s)(''parameters'' \<mapsto>
                   JArr (if p \<in> set ps then filter (\<lambda>q. q \<noteq> p) ps else ps @ [p])),
                 error := None\<rparr>)"
  using assms by (simp add: handleParameterToggle_def)

lemma toggle_distinct:
  assumes "formData s ''parameters'' = Some (JArr ps)" and "distinct ps"
  shows "\<exists>s' ps'. handleParameterToggle p s = Inr s'
           \<and> formData s' ''parameters'' = Some (JArr ps') \<and> distinct ps'
           \<and> formData s' ''location'' = formData s ''location''"
  using assms by (simp add: toggle_array)

lemma questions_ids: "qid ` set questions = {''reportType'', ''period''}"
  by (auto simp: questions_def)

lemma generateBegin_formData:
  assumes "formData s ''location'' = Some (JStr l)"
  shows "\<exists>s1 req. generateBegin env s = Inr (s1, req) \<and> formData s1 = formData s"
  using assms by (cases "trim l = []") (simp_all add: generateBegin_def)

lemma generateSettle_formData: "formData (generateSettle out s) = formData s"
proof (cases out)
  case (Resolved r)
  then show ?thesis by simp
next
  case (Rejected t)
  then show ?thesis by (cases t) simp_all
qed

lemma handleDownloadPDF_formData: "formData (handleDownloadPDF renderer s) = formData s"
  by (simp add: handleDownloadPDF_def split: option.splits outcome.splits)

text \<open>
  The updater behind the Previous button has no lower bound of its own: only the
  \<open>disabled\<close> attribute keeps the step from going below 0.
\<close>

lemma previousStep_unguarded: "currentStep (previousStep s) = currentStep s - 1"
  by (simp add: previousStep_def)

text \<open>The calls that edit a field or move the step never write \<open>reportData\<close>.\<close>

lemma exec_fieldOrStep_reportData:
  "fieldOrStep c \<Longrightarrow> exec c s = Inr s' \<Longrightarrow> reportData s' = reportData s"
  by (cases c)
     (auto simp: handleOptionSelect_def handleLocationChange_def previousStep_def
        nextStep_def dest: toggle_frame)

lemma run_fieldOrStep_reportData:
  "list_all fieldOrStep cs \<Longrightarrow> run cs s = Inr s' \<Longrightarrow> reportData s' = reportData s"
proof (induction cs arbitrary: s)
  case Nil
  then show ?case by simp
next
  case (Cons c cs)
  from Cons.prems obtain s1 where ex: "exec c s = Inr s1" and rest: "run cs s1 = Inr s'"
    by (auto split: sum.splits)
  from Cons.prems ex have "reportData s1 = reportData s"
    by (auto dest: exec_fieldOrStep_reportData)
  moreover from Cons.IH [OF _ rest] Cons.prems have "reportData s' = reportData s1"
    by simp
  ultimately show ?case by simp
qed

text \<open>
  While \<open>parameters\<close> holds an array and \<open>handleOptionSelect\<close> gets the \<open>id\<close> of a question,
  no edit throws, and \<open>parameters\<close> still holds an array afterwards.
\<close>

lemma exec_edit_total:
  assumes "fieldOrStep c" and "fromQuestions c"
    and "formData s ''parameters'' = Some (JArr ps)"
  shows "\<exists>s' ps'. exec c s = Inr s' \<and> formData s' ''parameters'' = Some (JArr ps')"
  using assms
  by (cases c)
     (auto simp: handleOptionSelect_def handleLocationChange_def previousStep_def
        nextStep_def toggle_array questions_ids)

lemma run_edit_total:
  assumes "list_all fieldOrStep cs" and "list_all fromQuestions cs"
    and "formData s ''parameters'' = Some (JArr ps)"
  shows "\<exists>s'. run cs s = Inr s'"
  using assms
proof (induction cs arbitrary: s ps)
  case Nil
  then show ?case by simp
next
  case (Cons c cs)
  from Cons.prems obtain s1 ps1 where ex: "exec c s = Inr s1"
    and arr: "formData s1 ''parameters'' = Some (JArr ps1)"
    using exec_edit_total [of c s ps] by auto
  from Cons.IH [OF _ _ arr] Cons.prems obtain s' where "run cs s1 = Inr s'"
    by auto
  with ex show ?case by simp
qed

text \<open>Every call but the toggle leaves \<open>parameters\<close> alone.\<close>

lemma exec_other_parameters:
  assumes "fromQuestions c" and "\<forall>p. c \<noteq> ParameterToggle p" and "exec c s = Inr s'"
  shows "formData s' ''parameters'' = formData s ''parameters''"
proof (cases c)
  case (OptionSelect questionId v)
  with assms show ?thesis
    by (auto simp: handleOptionSelect_def questions_ids)
next
  case (LocationChange v)
  with assms show ?thesis by (auto simp: handleLocationChange_def)
next
  case (ParameterToggle p)
  with assms show ?thesis by simp
next
  case Previous
  with assms show ?thesis by (auto simp: previousStep_def)
next
  case Next
  with assms show ?thesis by (auto simp: nextStep_def)
next
  case (GenerateBegin env)
  with assms show ?thesis
    by (auto simp: generateBegin_def split: sum.splits bool.splits)
next
  case (GenerateSettle out)
  with assms show ?thesis by (auto simp: generateSettle_formData)
next
  case (DownloadPDF out)
  with assms show ?thesis by (auto simp: handleDownloadPDF_formData)
qed

text \<open>
  The invariant of the form: \<open>location\<close> holds a string and \<open>parameters\<close> an array without
  repetition. Every call the component can issue keeps it, and none of them throws.
\<close>

lemma exec_wellFormed:
  assumes "fromQuestions c"
    and "formData s ''location'' = Some (JStr l)"
    and "formData s ''parameters'' = Some (JArr ps)" and "distinct ps"
  shows "\<exists>s' l' ps'. exec c s = Inr s' \<and> formData s' ''location'' = Some (JStr l')
           \<and> formData s' ''parameters'' = Some (JArr ps') \<and> distinct ps'"
proof (cases c)
  case (OptionSelect questionId v)
  with assms show ?thesis
    by (auto simp: handleOptionSelect_def questions_ids)
next
  case (LocationChange v)
  with assms show ?thesis by (auto simp: handleLocationChange_def)
next
  case (ParameterToggle p)
  with assms toggle_distinct [of s ps p] show ?thesis by auto
next
  case Previous
  with assms show ?thesis by (auto simp: previousStep_def)
next
  case Next
  with assms show ?thesis by (auto simp: nextStep_def)
next
  case (GenerateBegin env)
  with assms generateBegin_formData [of s l env] show ?thesis by auto
next
  case (GenerateSettle out)
  with assms show ?thesis by (auto simp: generateSettle_formData)
next
  case (DownloadPDF out)
  with assms show ?thesis by (auto simp: handleDownloadPDF_formData)
qed

lemma run_wellFormed:
  assumes "list_all fromQuestions cs"
    and "formData s ''location'' = Some (JStr l)"
    and "formData s ''parameters'' = Some (JArr ps)" and "distinct ps"
  shows "\<exists>s' ps'. run cs s = Inr s' \<and> formData s' ''parameters'' = Some (JArr ps')
           \<and> distinct ps'"
  using assms
proof (induction cs arbitrary: s l ps)
  case Nil
  then show ?case by simp
next
  case (Cons c cs)
  from Cons.prems have c: "fromQuestions c" and cs: "list_all fromQuestions cs"
    by simp_all
  from exec_wellFormed [OF c Cons.prems(2-4)]
  obtain s1 l1 ps1 where ex: "exec c s = Inr s1"
    and l1: "formData s1 ''location'' = Some (JStr l1)"
    and p1: "formData s1 ''parameters'' = Some (JArr ps1)" and d1: "distinct ps1"
    by blast
  from Cons.IH [OF cs l1 p1 d1] ex show ?case by simp
qed

subsection \<open>Generating\<close>

text \<open>
  C1. In every state whose \<open>formData.location\<close> is a string that is empty after trimming,
  whatever \<open>formData.parameters\<close> holds, \<open>handleGenerateReport\<close> sends no request to the
  report service, sets \<open>error\<close> to exactly \<open>Please enter a location\<close> and changes nothing
  else. It does not write \<open>isGenerating\<close>: a flag that was false is false afterwards.
\<close>

theorem generateReport_blank_location:
  assumes "formData s ''location'' = Some (JStr loc)" and "trim loc = []"
  shows "\<exists>s'. handleGenerateReport env service s = Inr (s', [])
           \<and> s' = s\<lparr>error := Some ''Please enter a location''\<rparr>
           \<and> error s' = Some ''Please enter a location''
           \<and> isGenerating s' = isGenerating s
           \<and> (\<not> isGenerating s \<longrightarrow> \<not> isGenerating s')"
  using assms by (simp add: handleGenerateReport_def generateBegin_def)

theorem generateReport_blank_location_witness:
  "formData ((initial :: nat wizard)\<lparr>currentStep := 2,
       formData := (formData initial)(''location'' \<mapsto> JStr ''  '',
                                     ''parameters'' \<mapsto> JArr [''pH Level''])\<rparr>) ''location''
     = Some (JStr ''  '')
   \<and> trim ''  '' = []
   \<and> (\<exists>s'. handleGenerateReport (Some ''key'') (\<lambda>req. Resolved 7)
          ((initial :: nat wizard)\<lparr>currentStep := 2,
             formData := (formData initial)(''location'' \<mapsto> JStr ''  '',
                                           ''parameters'' \<mapsto> JArr [''pH Level''])\<rparr>)
          = Inr (s', [])
        \<and> error s' = Some ''Please enter a location'' \<and> \<not> isGenerating s')"
  using generateReport_blank_location
    [of "(initial :: nat wizard)\<lparr>currentStep := 2,
           formData := (formData initial)(''location'' \<mapsto> JStr ''  '',
                                         ''parameters'' \<mapsto> JArr [''pH Level''])\<rparr>"
        "''  ''" "Some ''key''" "\<lambda>req. Resolved 7"]
  by (simp add: initial_def trim_def isWhiteSpace_def)

text \<open>
  C2. In every state whose \<open>formData.location\<close> is a string that is not blank, when the
  report service resolves the request with the report \<open>r\<close>, \<open>handleGenerateReport\<close> sends
  exactly that one request and ends with \<open>reportData\<close> equal to \<open>r\<close>, \<open>isGenerating\<close> false
  and \<open>error\<close> unset.
\<close>

theorem generateReport_success:
  assumes "formData s ''location'' = Some (JStr loc)" and "trim loc \<noteq> []"
    and "service (formData s, apiKeyOrEmpty env) = Resolved r"
  shows "\<exists>s'. handleGenerateReport env service s = Inr (s', [(formData s, apiKeyOrEmpty env)])
           \<and> reportData s' = Some r \<and> \<not> isGenerating s' \<and> error s' = None"
  using assms by (simp add: handleGenerateReport_def generateBegin_def)

theorem generateReport_success_witness:
  "trim ''Jaipur'' \<noteq> []
   \<and> (\<exists>s' reqs. handleGenerateReport None (\<lambda>req. Resolved (7 :: nat))
          (initial\<lparr>currentStep := 2, error := Some ''stale'',
             formData := (formData initial)(''location'' \<mapsto> JStr ''Jaipur'',
               ''parameters'' \<mapsto> JArr [''pH Level'', ''Fluoride Level''])\<rparr>)
          = Inr (s', reqs)
        \<and> map snd reqs = [[]]
        \<and> reportData s' = Some 7 \<and> \<not> isGenerating s' \<and> error s' = None)"
  using generateReport_success
    [of "(initial :: nat wizard)\<lparr>currentStep := 2, error := Some ''stale'',
           formData := (formData initial)(''location'' \<mapsto> JStr ''Jaipur'',
             ''parameters'' \<mapsto> JArr [''pH Level'', ''Fluoride Level''])\<rparr>"
        "''Jaipur''" "\<lambda>req. Resolved 7" None 7]
  by (auto simp add: initial_def trim_def isWhiteSpace_def apiKeyOrEmpty_def)




subsection \<open>The result view\<close>

text \<open>
  C4. In every state whose \<open>reportData\<close> is set, \<open>renderCurrentStep\<close> yields the result view,
  and after any sequence of option selections, location changes, parameter toggles and
  step moves \<open>reportData\<close> is the same report and the view is still the result view. Such a
  sequence runs to its end whenever \<open>parameters\<close> holds an array and the selections use
  the identifiers of the questions.
\<close>

theorem report_view_is_terminal:
  assumes "reportData s = Some r" and "list_all fieldOrStep cs"
  shows "renderCurrentStep s = Inr (ReportVisualization r)
         \<and> (\<forall>s'. run cs s = Inr s' \<longrightarrow>
               reportData s' = Some r \<and> renderCurrentStep s' = Inr (ReportVisualization r))
         \<and> ((\<exists>ps. formData s ''parameters'' = Some (JArr ps)) \<and> list_all fromQuestions cs
               \<longrightarrow> (\<exists>s'. run cs s = Inr s'))"
proof (intro conjI allI impI)
  show "renderCurrentStep s = Inr (ReportVisualization r)"
    using assms(1) by (rule render_report)
next
  fix s' assume r: "run cs s = Inr s'"
  with assms show "reportData s' = Some r"
    by (simp add: run_fieldOrStep_reportData)
  then show "renderCurrentStep s' = Inr (ReportVisualization r)"
    by (rule render_report)
next
  assume "(\<exists>ps. formData s ''parameters'' = Some (JArr ps)) \<and> list_all fromQuestions cs"
  with assms(2) show "\<exists>s'. run cs s = Inr s'"
    using run_edit_total by blast
qed

theorem report_view_is_terminal_witness:
  "reportData ((initial :: nat wizard)\<lparr>reportData := Some 7, currentStep := 2\<rparr>) = Some 7
   \<and> list_all fieldOrStep
        [OptionSelect ''reportType'' ''Water Quality Assessment'', ParameterToggle ''pH Level'',
         Previous, Previous, Previous, Next, LocationChange ''Pune'' :: nat call]
   \<and> renderCurrentStep ((initial :: nat wizard)\<lparr>reportData := Some 7, currentStep := 2\<rparr>)
       = Inr (ReportVisualization 7)
   \<and> (\<exists>s'. run [OptionSelect ''reportType'' ''Water Quality Assessment'',
                  ParameterToggle ''pH Level'', Previous, Previous, Previous, Next,
                  LocationChange ''Pune'']
             ((initial :: nat wizard)\<lparr>reportData := Some 7, currentStep := 2\<rparr>) = Inr s'
          \<and> currentStep s' = 0
          \<and> reportData s' = Some 7
          \<and> renderCurrentStep s' = Inr (ReportVisualization 7))"
  using report_view_is_terminal
    [of "(initial :: nat wizard)\<lparr>reportData := Some 7, currentStep := 2\<rparr>" 7
        "[OptionSelect ''reportType'' ''Water Quality Assessment'', ParameterToggle ''pH Level'',
          Previous, Previous, Previous, Next, LocationChange ''Pune'']"]
  by (auto simp add: initial_def questions_def handleOptionSelect_def handleLocationChange_def
        handleParameterToggle_def previousStep_def nextStep_def)

subsection \<open>Editing fields\<close>

text \<open>
  C5. In every state, whatever \<open>error\<close> holds and whatever the arguments are,
  \<open>handleOptionSelect\<close> and \<open>handleLocationChange\<close> leave \<open>error\<close> unset, and so does
  \<open>handleParameterToggle\<close> whenever it returns; it does return when \<open>parameters\<close> holds an
  array.
\<close>

theorem edits_clear_error:
  "error (handleOptionSelect questionId v s) = None
   \<and> error (handleLocationChange loc s) = None
   \<and> (\<forall>s'. handleParameterToggle parameter s = Inr s' \<longrightarrow> error s' = None)
   \<and> ((\<exists>ps. formData s ''parameters'' = Some (JArr ps))
        \<longrightarrow> (\<exists>s'. handleParameterToggle parameter s = Inr s' \<and> error s' = None))"
  by (auto simp: handleOptionSelect_def handleLocationChange_def toggle_array
      dest: toggle_frame)

theorem edits_clear_error_witness:
  "error (handleOptionSelect ''period'' ''Last 1 year''
            ((initial :: nat wizard)\<lparr>error := Some ''Please enter a location''\<rparr>)) = None
   \<and> error (handleLocationChange ''Pune''
            ((initial :: nat wizard)\<lparr>error := Some ''Please enter a location''\<rparr>)) = None
   \<and> (\<exists>s'. handleParameterToggle ''pH Level''
            ((initial :: nat wizard)\<lparr>error := Some ''Please enter a location''\<rparr>) = Inr s'
          \<and> error s' = None
          \<and> formData s' ''parameters'' = Some (JArr [''pH Level'']))"
  using edits_clear_error
    [of "''period''" "''Last 1 year''"
        "(initial :: nat wizard)\<lparr>error := Some ''Please enter a location''\<rparr>"
        "''Pune''" "''pH Level''"]
  by (auto simp add: initial_def handleParameterToggle_def)

text \<open>
  C6, as the code has it. In every state whose \<open>parameters\<close> holds an array, toggling the
  same name \<open>x\<close> twice in succession leaves an array with the same set of entries. The
  array itself is restored when \<open>x\<close> was not selected. When \<open>x\<close> was selected, the first
  toggle filters it out and the second appends it, so \<open>x\<close> ends up last.
\<close>

theorem toggle_twice_same_set:
  assumes "formData s ''parameters'' = Some (JArr ps)"
  shows "\<exists>ps'. parametersAfter [ParameterToggle x, ParameterToggle x] s = Inr (Some (JArr ps'))
           \<and> set ps' = set ps
           \<and> (x \<notin> set ps \<longrightarrow> ps' = ps)
           \<and> (x \<in> set ps \<longrightarrow> ps' = filter (\<lambda>p. p \<noteq> x) ps @ [x])"
proof (cases "x \<in> set ps")
  case True
  with assms show ?thesis
    by (auto simp: parametersAfter_def handleParameterToggle_def)
next
  case False
  then have "filter (\<lambda>p. p \<noteq> x) ps = ps"
    by (auto simp: filter_id_conv)
  with False assms show ?thesis
    by (auto simp: parametersAfter_def handleParameterToggle_def)
qed

theorem toggle_twice_same_set_witness:
  "(\<exists>ps'. parametersAfter [ParameterToggle ''pH Level'', ParameterToggle ''pH Level'']
            ((initial :: nat wizard)\<lparr>formData := (formData initial)
               (''parameters'' \<mapsto> JArr [''pH Level'', ''Fluoride Level''])\<rparr>)
          = Inr (Some (JArr ps'))
        \<and> set ps' = {''pH Level'', ''Fluoride Level''}
        \<and> ps' = [''Fluoride Level'', ''pH Level''])
   \<and> (\<exists>ps'. parametersAfter [ParameterToggle ''Recharge Rate'', ParameterToggle ''Recharge Rate'']
            ((initial :: nat wizard)\<lparr>formData := (formData initial)
               (''parameters'' \<mapsto> JArr [''pH Level'', ''Fluoride Level''])\<rparr>)
          = Inr (Some (JArr ps'))
        \<and> ps' = [''pH Level'', ''Fluoride Level''])"
  using toggle_twice_same_set
    [of "(initial :: nat wizard)\<lparr>formData := (formData initial)
           (''parameters'' \<mapsto> JArr [''pH Level'', ''Fluoride Level''])\<rparr>"
        "[''pH Level'', ''Fluoride Level'']" "''pH Level''"]
    toggle_twice_same_set
    [of "(initial :: nat wizard)\<lparr>formData := (formData initial)
           (''parameters'' \<mapsto> JArr [''pH Level'', ''Fluoride Level''])\<rparr>"
        "[''pH Level'', ''Fluoride Level'']" "''Recharge Rate''"]
  by (auto simp add: initial_def)

text \<open>
  C6 as stated fails: toggling a selected name twice does not give back the original
  array. From the initial state, selecting \<open>pH Level\<close> and then \<open>Fluoride Level\<close> gives the
  array with \<open>pH Level\<close> first; two more toggles of \<open>pH Level\<close> give the array with
  \<open>pH Level\<close> last.
\<close>

theorem toggle_twice_reorders:
  "parametersAfter [ParameterToggle ''pH Level'', ParameterToggle ''Fluoride Level'']
       (initial :: nat wizard)
     = Inr (Some (JArr [''pH Level'', ''Fluoride Level'']))
   \<and> parametersAfter [ParameterToggle ''pH Level'', ParameterToggle ''Fluoride Level'',
         ParameterToggle ''pH Level'', ParameterToggle ''pH Level''] (initial :: nat wizard)
     = Inr (Some (JArr [''Fluoride Level'', ''pH Level'']))
   \<and> JArr [''Fluoride Level'', ''pH Level''] \<noteq> JArr [''pH Level'', ''Fluoride Level'']"
  by (simp add: parametersAfter_def handleParameterToggle_def initial_def)

subsection \<open>Navigation and download\<close>

text \<open>
  C7. In every state whose \<open>currentStep\<close> is 0, a click on the Previous button changes
  nothing: the button is disabled, or not rendered at all, and \<open>currentStep\<close> is still 0.
\<close>

theorem previous_disabled_at_first_step:
  assumes "currentStep s = 0"
  shows "click (previousButton s) s = s \<and> currentStep (click (previousButton s) s) = 0"
  using assms by (simp add: click_def previousButton_def)

theorem previous_disabled_at_first_step_witness:
  "currentStep (initial :: nat wizard) = 0
   \<and> click (previousButton initial) (initial :: nat wizard) = initial
   \<and> currentStep (click (previousButton initial) (initial :: nat wizard)) = 0"
  using previous_disabled_at_first_step [of "initial :: nat wizard"]
  by (simp add: initial_def)

text \<open>
  C8. In every state whose \<open>reportData\<close> is set, when the renderer fails,
  \<open>handleDownloadPDF\<close> sets \<open>error\<close> to \<open>Failed to download PDF\<close>, whatever was thrown, and
  leaves \<open>reportData\<close> and \<open>currentStep\<close> as they were.
\<close>

theorem download_failure_frame:
  assumes "reportData s = Some r" and "renderer r = Rejected t"
  shows "error (handleDownloadPDF renderer s) = Some ''Failed to download PDF''
         \<and> reportData (handleDownloadPDF renderer s) = reportData s
         \<and> currentStep (handleDownloadPDF renderer s) = currentStep s"
  using assms by (simp add: handleDownloadPDF_def)

theorem download_failure_frame_witness:
  "reportData ((initial :: nat wizard)\<lparr>reportData := Some 7, currentStep := 2\<rparr>) = Some 7
   \<and> error (handleDownloadPDF (\<lambda>report. Rejected (ErrorInstance ''no canvas''))
        ((initial :: nat wizard)\<lparr>reportData := Some 7, currentStep := 2\<rparr>))
       = Some ''Failed to download PDF''
   \<and> reportData (handleDownloadPDF (\<lambda>report. Rejected (ErrorInstance ''no canvas''))
        ((initial :: nat wizard)\<lparr>reportData := Some 7, currentStep := 2\<rparr>)) = Some 7
   \<and> currentStep (handleDownloadPDF (\<lambda>report. Rejected (ErrorInstance ''no canvas''))
        ((initial :: nat wizard)\<lparr>reportData := Some 7, currentStep := 2\<rparr>)) = 2"
  using download_failure_frame
    [of "(initial :: nat wizard)\<lparr>reportData := Some 7, currentStep := 2\<rparr>" 7
        "\<lambda>report. Rejected (ErrorInstance ''no canvas'')" "ErrorInstance ''no canvas''"]
  by (simp add: initial_def)

subsection \<open>The selected parameters\<close>

text \<open>
  C9. After any sequence of calls that the component can issue from its initial state,
  \<open>formData.parameters\<close> is an array without repeated entries, and no call of the sequence
  throws. \<open>handleParameterToggle\<close> keeps an array without repetition that way, and no other
  call of the component changes \<open>parameters\<close>.
\<close>

theorem parameters_stay_distinct:
  "(list_all fromQuestions cs \<longrightarrow>
      (\<exists>s ps. run cs initial = Inr s \<and> formData s ''parameters'' = Some (JArr ps)
         \<and> distinct ps))
   \<and> (formData t ''parameters'' = Some (JArr qs) \<and> distinct qs \<longrightarrow>
        (\<exists>t' qs'. handleParameterToggle p t = Inr t'
           \<and> formData t' ''parameters'' = Some (JArr qs') \<and> distinct qs'))
   \<and> (fromQuestions c \<and> (\<forall>x. c \<noteq> ParameterToggle x) \<and> exec c u = Inr u' \<longrightarrow>
        formData u' ''parameters'' = formData u ''parameters'')"
proof (intro conjI impI)
  assume "list_all fromQuestions cs"
  then show "\<exists>s ps. run cs initial = Inr s \<and> formData s ''parameters'' = Some (JArr ps)
      \<and> distinct ps"
    using run_wellFormed [of cs initial "[]" "[]"] by (simp add: initial_def)
next
  assume "formData t ''parameters'' = Some (JArr qs) \<and> distinct qs"
  then show "\<exists>t' qs'. handleParameterToggle p t = Inr t'
      \<and> formData t' ''parameters'' = Some (JArr qs') \<and> distinct qs'"
    using toggle_distinct [of t qs p] by blast
next
  assume "fromQuestions c \<and> (\<forall>x. c \<noteq> ParameterToggle x) \<and> exec c u = Inr u'"
  then show "formData u' ''parameters'' = formData u ''parameters''"
    using exec_other_parameters [of c u u'] by blast
qed

theorem parameters_stay_distinct_witness:
  "list_all fromQuestions
     [OptionSelect ''reportType'' ''Water Quality Assessment'', Next,
      OptionSelect ''period'' ''Last 1 year'', Next,
      ParameterToggle ''pH Level'', ParameterToggle ''Fluoride Level'',
      ParameterToggle ''pH Level'', ParameterToggle ''pH Level'',
      LocationChange ''Jaipur'', GenerateBegin None,
      GenerateSettle (Rejected (ErrorInstance ''rate limited'')) :: nat call]
   \<and> parametersAfter
     [OptionSelect ''reportType'' ''Water Quality Assessment'', Next,
      OptionSelect ''period'' ''Last 1 year'', Next,
      ParameterToggle ''pH Level'', ParameterToggle ''Fluoride Level'',
      ParameterToggle ''pH Level'', ParameterToggle ''pH Level'',
      LocationChange ''Jaipur'', GenerateBegin None,
      GenerateSettle (Rejected (ErrorInstance ''rate limited''))] (initial :: nat wizard)
     = Inr (Some (JArr [''Fluoride Level'', ''pH Level'']))
   \<and> distinct [''Fluoride Level'', ''pH Level'']
   \<and> (\<exists>t' qs'. handleParameterToggle ''pH Level''
          ((initial :: nat wizard)\<lparr>formData := (formData initial)
             (''parameters'' \<mapsto> JArr [''pH Level'', ''Fluoride Level''])\<rparr>) = Inr t'
        \<and> formData t' ''parameters'' = Some (JArr qs') \<and> distinct qs')
   \<and> exec (LocationChange ''Pune'') (initial :: nat wizard)
       = Inr (handleLocationChange ''Pune'' initial)
   \<and> formData (handleLocationChange ''Pune'' (initial :: nat wizard)) ''parameters''
       = formData (initial :: nat wizard) ''parameters''"
  using parameters_stay_distinct
    [of "[OptionSelect ''reportType'' ''Water Quality Assessment'', Next,
          OptionSelect ''period'' ''Last 1 year'', Next,
          ParameterToggle ''pH Level'', ParameterToggle ''Fluoride Level'',
          ParameterToggle ''pH Level'', ParameterToggle ''pH Level'',
          LocationChange ''Jaipur'', GenerateBegin None,
          GenerateSettle (Rejected (ErrorInstance ''rate limited''))]"
        "(initial :: nat wizard)\<lparr>formData := (formData initial)
             (''parameters'' \<mapsto> JArr [''pH Level'', ''Fluoride Level''])\<rparr>"
        "[''pH Level'', ''Fluoride Level'']" "''pH Level''"
        "LocationChange ''Pune''" "initial :: nat wizard"
        "handleLocationChange ''Pune'' initial"]
  by (simp add: initial_def questions_def parametersAfter_def handleOptionSelect_def
        handleLocationChange_def handleParameterToggle_def previousStep_def nextStep_def
        generateBegin_def trim_def isWhiteSpace_def)

text \<open>
  C10. For every string \<open>questionId\<close>, declared as a question identifier or not, and every
  string \<open>v\<close>, \<open>handleOptionSelect questionId v\<close> stores the string \<open>v\<close> in \<open>formData\<close>
  under the key \<open>questionId\<close>, creating or overwriting that field and leaving every other
  field as it was. In particular the key \<open>location\<close> overwrites the location, and the key
  \<open>parameters\<close> replaces the array of parameters by the string \<open>v\<close>.
\<close>

theorem handleOptionSelect_writes_any_key:
  "formData (handleOptionSelect questionId v s) = (formData s)(questionId \<mapsto> JStr v)
   \<and> formData (handleOptionSelect ''location'' v s) ''location'' = Some (JStr v)
   \<and> formData (handleOptionSelect ''parameters'' v s) ''parameters'' = Some (JStr v)"
  by (simp add: handleOptionSelect_def)

theorem handleOptionSelect_writes_any_key_witness:
  "formData (handleOptionSelect ''parameters'' ''abc'' (initial :: unit wizard)) ''parameters''
     = Some (JStr ''abc'')
   \<and> formData (handleOptionSelect ''note'' ''abc'' (initial :: unit wizard)) ''note''
     = Some (JStr ''abc'')
   \<and> formData (handleOptionSelect ''note'' ''abc'' (initial :: unit wizard)) ''period''
     = Some (JStr [])"
  using handleOptionSelect_writes_any_key
    [of "''parameters''" "''abc''" "initial :: unit wizard"]
    handleOptionSelect_writes_any_key [of "''note''" "''abc''" "initial :: unit wizard"]
  by (simp add: initial_def)

end
